theory Spec2Isabelle
  imports Main
begin

section \<open>The interpreter and the libraries the plugin calls\<close>

text \<open>
  The plugin is glue between things it does not define: the interpreter's conversions
  (\<^verbatim>\<open>int\<close>, \<^verbatim>\<open>float\<close>, \<^verbatim>\<open>str\<close>), the host's helper \<^verbatim>\<open>utils.strtobool\<close> (a text
  to a \<^verbatim>\<open>bool\<close>), \<^verbatim>\<open>torch.cuda.is_available\<close>, the detector library and the host's
  task interface. The conversions and the detector are parameters of the model: the
  fields of the records \<open>builtins\<close> and \<open>detector\<close>. A conversion that raises
  \<^verbatim>\<open>ValueError\<close> returns \<open>None\<close>. Floating-point values are an abstract type \<open>'f\<close>,
  and \<open>float_lit\<close> gives the value of a float literal of the source from its text.
  The calls to the host are kept in a trace, and the host's output is a list.
\<close>

datatype py_error =
    KeyError string
  | ValueError string
  | IndexError
  | AttributeError
  | LibraryError string

record 'f builtins =
  strtobool :: "string \<Rightarrow> bool option"
  int_of_str :: "string \<Rightarrow> int option"
  float_of_str :: "string \<Rightarrow> 'f option"
  str_of_int :: "int \<Rightarrow> string"
  str_of_float :: "'f \<Rightarrow> string"
  float_lit :: "string \<Rightarrow> 'f"
  is_available :: bool

text \<open>\<^verbatim>\<open>str(b)\<close> for a Python \<^verbatim>\<open>bool\<close>.\<close>

definition str_of_bool :: "bool \<Rightarrow> string" where
  "str_of_bool b = (if b then ''True'' else ''False'')"

text \<open>\<^verbatim>\<open>param_map[key]\<close>: a missing key raises.\<close>

definition getitem :: "(string \<rightharpoonup> string) \<Rightarrow> string \<Rightarrow> py_error + string" where
  "getitem param_map key =
     (case param_map key of None \<Rightarrow> Inl (KeyError key) | Some v \<Rightarrow> Inr v)"

text \<open>\<^verbatim>\<open>conv(param_map[key])\<close>: the lookup first, then the conversion of the text.\<close>

definition getitem_as ::
  "(string \<Rightarrow> 'a option) \<Rightarrow> (string \<rightharpoonup> string) \<Rightarrow> string \<Rightarrow> py_error + 'a" where
  "getitem_as conv param_map key =
     (case getitem param_map key of
        Inl e \<Rightarrow> Inl e
      | Inr v \<Rightarrow> (case conv v of None \<Rightarrow> Inl (ValueError v) | Some x \<Rightarrow> Inr x))"

section \<open>The parameter object: \<^verbatim>\<open>InferYoloV8Param\<close>\<close>

record 'f InferYoloV8Param =
  model_name :: string
  cuda :: bool
  input_size :: int
  conf_thres :: 'f
  iou_thres :: 'f
  update :: bool
  model_weight_file :: string

text \<open>\<^verbatim>\<open>InferYoloV8Param.__init__\<close>\<close>

definition init_param :: "'f builtins \<Rightarrow> 'f InferYoloV8Param" where
  "init_param L =
     \<lparr> model_name = ''yolov8m'',
       cuda = is_available L,
       input_size = 640,
       conf_thres = float_lit L ''0.25'',
       iou_thres = float_lit L ''0.7'',
       update = False,
       model_weight_file = '''' \<rparr>"

text \<open>
  \<^verbatim>\<open>InferYoloV8Param.set_values\<close>. The assignments run one after the other, so a
  raise leaves the fields assigned before it changed: the error comes with the object
  as it is at the raise.
\<close>

definition set_values ::
  "'f builtins \<Rightarrow> (string \<rightharpoonup> string) \<Rightarrow> 'f InferYoloV8Param
     \<Rightarrow> (py_error \<times> 'f InferYoloV8Param) + 'f InferYoloV8Param" where
  "set_values L param_map self =
     (case getitem param_map ''model_name'' of
        Inl e \<Rightarrow> Inl (e, self)
      | Inr v \<Rightarrow>
     (let self = self\<lparr>model_name := v\<rparr> in
     (case getitem_as (strtobool L) param_map ''cuda'' of
        Inl e \<Rightarrow> Inl (e, self)
      | Inr b \<Rightarrow>
     (let self = self\<lparr>cuda := b\<rparr> in
     (case getitem_as (int_of_str L) param_map ''input_size'' of
        Inl e \<Rightarrow> Inl (e, self)
      | Inr n \<Rightarrow>
     (let self = self\<lparr>input_size := n\<rparr> in
     (case getitem_as (float_of_str L) param_map ''conf_thres'' of
        Inl e \<Rightarrow> Inl (e, self)
      | Inr c \<Rightarrow>
     (let self = self\<lparr>conf_thres := c\<rparr> in
     (case getitem_as (float_of_str L) param_map ''iou_thres'' of
        Inl e \<Rightarrow> Inl (e, self)
      | Inr u \<Rightarrow>
     (let self = self\<lparr>iou_thres := u\<rparr> in
     (case getitem param_map ''model_weight_file'' of
        Inl e \<Rightarrow> Inl (e, self)
      | Inr w \<Rightarrow>
     (let self = self\<lparr>model_weight_file := w\<rparr> in
      Inr (self\<lparr>update := True\<rparr>)))))))))))))"

text \<open>\<^verbatim>\<open>InferYoloV8Param.get_values\<close>\<close>

definition get_values :: "'f builtins \<Rightarrow> 'f InferYoloV8Param \<Rightarrow> (string \<rightharpoonup> string)" where
  "get_values L self =
     (let param_map = Map.empty;
          param_map = param_map(''model_name'' \<mapsto> model_name self);
          param_map = param_map(''cuda'' \<mapsto> str_of_bool (cuda self));
          param_map = param_map(''input_size'' \<mapsto> str_of_int L (input_size self));
          param_map = param_map(''conf_thres'' \<mapsto> str_of_float L (conf_thres self));
          param_map = param_map(''iou_thres'' \<mapsto> str_of_float L (iou_thres self));
          param_map = param_map(''update'' \<mapsto> str_of_bool (update self));
          param_map = param_map(''model_weight_file'' \<mapsto> model_weight_file self)
      in param_map)"

section \<open>The detector library and the host's result sink\<close>

datatype device = Cpu | Cuda

text \<open>
  What \<^verbatim>\<open>model.predict\<close> returns for one image: \<^verbatim>\<open>names\<close>, a dictionary from class
  index to class name, in its insertion order; \<^verbatim>\<open>boxes.xyxy\<close>, one row of corner
  coordinates per box; \<^verbatim>\<open>boxes.conf\<close> and \<^verbatim>\<open>boxes.cls\<close>. The type \<open>'n\<close> is a number
  as the detector returns it (an element of a tensor, or of the array that
  \<^verbatim>\<open>box.detach().cpu().numpy()\<close> makes of a row, which keeps the row's values).
\<close>

record 'n results =
  names :: "(int \<times> string) list"
  xyxy :: "'n list list"
  conf :: "'n list"
  cls :: "'n list"

text \<open>
  The detector library: the constructor \<^verbatim>\<open>YOLO(weights)\<close> and \<^verbatim>\<open>predict\<close>, which
  both may raise (a missing weight file, an unsupported device), the subtraction of two
  array elements, and \<^verbatim>\<open>float(.)\<close> and \<^verbatim>\<open>int(.)\<close> of a number of the detector.
\<close>

record ('f, 'n, 'm, 'img) detector =
  YOLO :: "string \<Rightarrow> py_error + 'm"
  predict :: "'m \<Rightarrow> 'img \<Rightarrow> int \<Rightarrow> 'f \<Rightarrow> 'f \<Rightarrow> bool \<Rightarrow> device \<Rightarrow> py_error + 'n results list"
  np_sub :: "'n \<Rightarrow> 'n \<Rightarrow> 'n"
  to_float :: "'n \<Rightarrow> 'f"
  to_int :: "'n \<Rightarrow> int"

text \<open>The arguments of one \<^verbatim>\<open>add_object\<close> call.\<close>

record 'f detection =
  obj_index :: nat
  obj_class :: int
  obj_confidence :: 'f
  obj_x :: 'f
  obj_y :: 'f
  obj_width :: 'f
  obj_height :: 'f

text \<open>
  Every call that leaves the plugin, in the order the calls are made: to the host
  (\<open>BeginTaskRun\<close>, \<open>ClearData\<close>, \<open>SetNames\<close>, \<open>AddObject\<close>, \<open>EmitStepProgress\<close>,
  \<open>EndTaskRun\<close>) and to the detector library (\<open>Load\<close> for \<^verbatim>\<open>YOLO(weights)\<close>, \<open>Predict\<close>
  with the keyword arguments \<^verbatim>\<open>imgsz\<close>, \<^verbatim>\<open>conf\<close>, \<^verbatim>\<open>iou\<close>, \<^verbatim>\<open>half\<close>, \<^verbatim>\<open>device\<close>).
\<close>

datatype 'f call =
    BeginTaskRun
  | ClearData
  | Load string
  | Predict int 'f 'f bool device
  | SetNames "string list"
  | AddObject "'f detection"
  | EmitStepProgress
  | EndTaskRun

section \<open>The task: \<^verbatim>\<open>InferYoloV8\<close>\<close>

text \<open>
  The attributes of the task, then what the host keeps for it: \<open>param\<close> is the object
  that \<^verbatim>\<open>get_param_object()\<close> returns, \<open>objects\<close> the detections of output 1,
  \<open>output_names\<close> the list given to \<^verbatim>\<open>set_names\<close>, \<open>calls\<close> the calls made so far.
  The attribute \<^verbatim>\<open>self.model_name\<close> is \<open>task_model_name\<close>.
\<close>

record ('f, 'm) InferYoloV8 =
  param :: "'f InferYoloV8Param"
  device :: device
  classes :: "string list option"
  model :: "'m option"
  half :: bool
  task_model_name :: "string option"
  objects :: "'f detection list"
  output_names :: "string list"
  calls :: "'f call list"

text \<open>\<^verbatim>\<open>InferYoloV8.__init__\<close>: \<open>None\<close> for no parameter object, else a copy of it.\<close>

definition init_task :: "'f builtins \<Rightarrow> 'f InferYoloV8Param option \<Rightarrow> ('f, 'm) InferYoloV8" where
  "init_task L p =
     \<lparr> param = (case p of None \<Rightarrow> init_param L | Some q \<Rightarrow> q),
       device = Cpu,
       classes = None,
       model = None,
       half = False,
       task_model_name = None,
       objects = [],
       output_names = [],
       calls = [] \<rparr>"

text \<open>
  Modelled from the spec: the host's result sink (section 6 of the specification, the
  host is not code of the plugin). \<^verbatim>\<open>clear_data()\<close> empties the detections of the
  output, \<^verbatim>\<open>add_object(...)\<close> appends one, \<^verbatim>\<open>set_names(...)\<close> stores the class names;
  \<^verbatim>\<open>begin_task_run\<close>, \<^verbatim>\<open>emit_step_progress\<close> and \<^verbatim>\<open>end_task_run\<close> only notify.
\<close>

definition notify :: "'f call \<Rightarrow> ('f, 'm) InferYoloV8 \<Rightarrow> ('f, 'm) InferYoloV8" where
  "notify c self = self\<lparr>calls := calls self @ [c]\<rparr>"

definition clear_data :: "('f, 'm) InferYoloV8 \<Rightarrow> ('f, 'm) InferYoloV8" where
  "clear_data self = notify ClearData (self\<lparr>objects := []\<rparr>)"

definition set_names :: "string list \<Rightarrow> ('f, 'm) InferYoloV8 \<Rightarrow> ('f, 'm) InferYoloV8" where
  "set_names ns self = notify (SetNames ns) (self\<lparr>output_names := ns\<rparr>)"

definition add_object :: "'f detection \<Rightarrow> ('f, 'm) InferYoloV8 \<Rightarrow> ('f, 'm) InferYoloV8" where
  "add_object d self = notify (AddObject d) (self\<lparr>objects := objects self @ [d]\<rparr>)"

text \<open>The weights \<^verbatim>\<open>run\<close> gives to \<^verbatim>\<open>YOLO\<close>: the file when its path is not empty.\<close>

definition weights_of :: "'f InferYoloV8Param \<Rightarrow> string" where
  "weights_of p =
     (if model_weight_file p \<noteq> [] then model_weight_file p else model_name p @ ''.pt'')"

text \<open>The block \<^verbatim>\<open># Load model\<close> of \<^verbatim>\<open>run\<close>.\<close>

definition load_model ::
  "('f, 'n, 'm, 'img) detector \<Rightarrow> ('f, 'm) InferYoloV8
     \<Rightarrow> (py_error \<times> ('f, 'm) InferYoloV8) + ('f, 'm) InferYoloV8" where
  "load_model D self =
     (if update (param self) \<or> model self = None then
        (let self = self\<lparr>device := (if cuda (param self) then Cuda else Cpu)\<rparr>;
             self = self\<lparr>half := (if cuda (param self) then True else False)\<rparr>;
             self = notify (Load (weights_of (param self))) self
         in (case YOLO D (weights_of (param self)) of
               Inl e \<Rightarrow> Inl (e, self)
             | Inr m \<Rightarrow>
                 (let self = self\<lparr>model := Some m\<rparr>
                  in Inr (self\<lparr>param := (param self)\<lparr>update := False\<rparr>\<rparr>))))
      else Inr self)"

text \<open>
  The loop over \<^verbatim>\<open>enumerate(zip(boxes, confidences, class_idx))\<close>, from index \<open>i\<close>.
  \<^verbatim>\<open>box[0]\<close> to \<^verbatim>\<open>box[3]\<close> raise on a row of fewer than four elements.
\<close>

fun add_objects ::
  "('f, 'n, 'm, 'img) detector \<Rightarrow> nat \<Rightarrow> ('n list \<times> 'n \<times> 'n) list \<Rightarrow> ('f, 'm) InferYoloV8
     \<Rightarrow> (py_error \<times> ('f, 'm) InferYoloV8) + ('f, 'm) InferYoloV8" where
  "add_objects D i [] self = Inr self"
| "add_objects D i ((box, cf, cl) # rest) self =
     (if length box < 4 then Inl (IndexError, self)
      else
        (let x1 = box ! 0; y1 = box ! 1; x2 = box ! 2; y2 = box ! 3;
             widht = np_sub D x2 x1;
             height = np_sub D y2 y1;
             self = add_object
               \<lparr> obj_index = i,
                 obj_class = to_int D cl,
                 obj_confidence = to_float D cf,
                 obj_x = to_float D x1,
                 obj_y = to_float D y1,
                 obj_width = to_float D widht,
                 obj_height = to_float D height \<rparr> self
         in add_objects D (Suc i) rest self))"

text \<open>\<^verbatim>\<open>InferYoloV8.run\<close>, on the image of input 0.\<close>

definition run ::
  "('f, 'n, 'm, 'img) detector \<Rightarrow> 'img \<Rightarrow> ('f, 'm) InferYoloV8
     \<Rightarrow> (py_error \<times> ('f, 'm) InferYoloV8) + ('f, 'm) InferYoloV8" where
  "run D src_image self =
     (let self = notify BeginTaskRun self;
          self = clear_data self
      in (case load_model D self of
            Inl e \<Rightarrow> Inl e
          | Inr self \<Rightarrow>
      (case model self of
         None \<Rightarrow> Inl (AttributeError, self)
       | Some m \<Rightarrow>
      (let self = notify (Predict (input_size (param self)) (conf_thres (param self))
                   (iou_thres (param self)) (half self) (device self)) self
       in (case predict D m src_image (input_size (param self)) (conf_thres (param self))
                   (iou_thres (param self)) (half self) (device self) of
             Inl e \<Rightarrow> Inl (e, self)
           | Inr res \<Rightarrow>
       (case res of
          [] \<Rightarrow> Inl (IndexError, self)
        | r0 # _ \<Rightarrow>
       (let self = self\<lparr>classes := Some (map snd (names r0))\<rparr>;
            self = set_names (map snd (names r0)) self;
            boxes = xyxy r0;
            confidences = conf r0;
            class_idx = cls r0
        in (case add_objects D 0 (zip boxes (zip confidences class_idx)) self of
              Inl e \<Rightarrow> Inl e
            | Inr self \<Rightarrow>
                Inr (notify EndTaskRun (notify EmitStepProgress self))))))))))"

section \<open>The widget: \<^verbatim>\<open>InferYoloV8Widget\<close>\<close>

text \<open>
  The state of the form: the bound parameter object, what each control holds
  (\<^verbatim>\<open>currentText()\<close>, \<^verbatim>\<open>isChecked()\<close>, \<^verbatim>\<open>value()\<close>), and the parameter objects given to
  \<^verbatim>\<open>emit_apply\<close> so far, each as it was at the call.
\<close>

record 'f InferYoloV8Widget =
  parameters :: "'f InferYoloV8Param"
  combo_model :: string
  check_cuda :: bool
  spin_input_size :: int
  spin_conf_thres :: 'f
  spin_iou_thres :: 'f
  emitted :: "'f InferYoloV8Param list"

text \<open>\<^verbatim>\<open>InferYoloV8Widget.on_apply\<close>\<close>

definition on_apply :: "'f InferYoloV8Widget \<Rightarrow> 'f InferYoloV8Widget" where
  "on_apply self =
     (let self = self\<lparr>parameters := (parameters self)\<lparr>model_name := combo_model self\<rparr>\<rparr>;
          self = self\<lparr>parameters := (parameters self)\<lparr>cuda := check_cuda self\<rparr>\<rparr>;
          self = self\<lparr>parameters := (parameters self)\<lparr>input_size := spin_input_size self\<rparr>\<rparr>;
          self = self\<lparr>parameters := (parameters self)\<lparr>conf_thres := spin_conf_thres self\<rparr>\<rparr>;
          self = self\<lparr>parameters := (parameters self)\<lparr>iou_thres := spin_iou_thres self\<rparr>\<rparr>;
          self = self\<lparr>parameters := (parameters self)\<lparr>update := True\<rparr>\<rparr>
      in self\<lparr>emitted := emitted self @ [parameters self]\<rparr>)"

section \<open>A stand-in for the interpreter and a stub detector\<close>

text \<open>
  To evaluate the model at concrete inputs the parameters need values. \<open>ref_builtins\<close>
  reads and writes plain decimal texts: an integer is \<^verbatim>\<open>[-]digits\<close>, a float is
  \<^verbatim>\<open>[-]digits[.digits]\<close> and is kept as its exact decimal value (sign, mantissa, number
  of fractional digits, without trailing zeros). CPython accepts more texts (spaces,
  underscores, exponents, \<^verbatim>\<open>inf\<close>, \<^verbatim>\<open>nan\<close>) and rounds a float to binary64; on the short
  texts of the examples below both give the same \<^verbatim>\<open>str(int(s))\<close> and \<^verbatim>\<open>str(float(s))\<close>.
  \<open>ref_strtobool\<close> is the table of \<^verbatim>\<open>strtobool\<close>, after \<^verbatim>\<open>lower()\<close>.
\<close>

datatype dec = Dec bool nat nat

definition digit_of :: "char \<Rightarrow> nat option" where
  "digit_of c = (if c \<in> set ''0123456789'' then Some (of_char c - 48) else None)"

fun digits_value :: "nat \<Rightarrow> string \<Rightarrow> nat option" where
  "digits_value acc [] = Some acc"
| "digits_value acc (c # cs) =
     (case digit_of c of None \<Rightarrow> None | Some d \<Rightarrow> digits_value (10 * acc + d) cs)"

definition nat_of_text :: "string \<Rightarrow> nat option" where
  "nat_of_text s = (if s = [] then None else digits_value 0 s)"

fun text_of_nat :: "nat \<Rightarrow> string" where
  "text_of_nat n =
     (if n < 10 then [char_of (48 + n)]
      else text_of_nat (n div 10) @ [char_of (48 + n mod 10)])"

declare text_of_nat.simps [simp del]

definition ref_int_of_str :: "string \<Rightarrow> int option" where
  "ref_int_of_str s =
     (case s of
        [] \<Rightarrow> None
      | c # r \<Rightarrow>
          (if c = CHR ''-'' then map_option (\<lambda>n. - int n) (nat_of_text r)
           else map_option int (nat_of_text s)))"

definition ref_str_of_int :: "int \<Rightarrow> string" where
  "ref_str_of_int i =
     (if i < 0 then CHR ''-'' # text_of_nat (nat (- i)) else text_of_nat (nat i))"

fun strip_zeros :: "nat \<Rightarrow> nat \<Rightarrow> nat \<times> nat" where
  "strip_zeros m 0 = (m, 0)"
| "strip_zeros m (Suc k) = (if m mod 10 = 0 then strip_zeros (m div 10) k else (m, Suc k))"

definition unsigned_dec :: "bool \<Rightarrow> string \<Rightarrow> dec option" where
  "unsigned_dec neg s =
     (let ip = takeWhile (\<lambda>c. c \<noteq> CHR ''.'') s;
          fp = drop (Suc (length ip)) s
      in if length ip < length s \<and> fp = [] then None
         else (case nat_of_text ip of
                 None \<Rightarrow> None
               | Some _ \<Rightarrow>
                   (case digits_value 0 (ip @ fp) of
                      None \<Rightarrow> None
                    | Some m \<Rightarrow>
                        (case strip_zeros m (length fp) of (m', k) \<Rightarrow> Some (Dec neg m' k)))))"

definition ref_float_of_str :: "string \<Rightarrow> dec option" where
  "ref_float_of_str s =
     (case s of
        [] \<Rightarrow> None
      | c # r \<Rightarrow> (if c = CHR ''-'' then unsigned_dec True r else unsigned_dec False s))"

definition ref_str_of_float :: "dec \<Rightarrow> string" where
  "ref_str_of_float d =
     (case d of Dec neg m k \<Rightarrow>
        (let ds = text_of_nat m;
             ds = replicate (Suc k - length ds) CHR ''0'' @ ds;
             ip = take (length ds - k) ds;
             fp = drop (length ds - k) ds
         in (if neg then ''-'' else []) @ ip @ ''.'' @ (if fp = [] then ''0'' else fp)))"

definition lower :: "string \<Rightarrow> string" where
  "lower s =
     map (\<lambda>c. if (65::nat) \<le> of_char c \<and> of_char c \<le> (90::nat)
               then char_of (of_char c + (32::nat)) else c) s"

definition ref_strtobool :: "string \<Rightarrow> bool option" where
  "ref_strtobool v =
     (let val = lower v
      in if val \<in> set [''y'', ''yes'', ''t'', ''true'', ''on'', ''1''] then Some True
         else if val \<in> set [''n'', ''no'', ''f'', ''false'', ''off'', ''0''] then Some False
         else None)"

definition ref_builtins :: "dec builtins" where
  "ref_builtins =
     \<lparr> strtobool = ref_strtobool,
       int_of_str = ref_int_of_str,
       float_of_str = ref_float_of_str,
       str_of_int = ref_str_of_int,
       str_of_float = ref_str_of_float,
       float_lit = (\<lambda>s. case ref_float_of_str s of None \<Rightarrow> Dec False 0 0 | Some d \<Rightarrow> d),
       is_available = False \<rparr>"

text \<open>
  The stub detector: its numbers are integers, a model is the weights it was built
  from, \<^verbatim>\<open>YOLO\<close> raises on the weights \<^verbatim>\<open>missing.pt\<close>, and \<^verbatim>\<open>predict\<close> returns the same
  two boxes for every image.
\<close>

definition stub_results :: "int results" where
  "stub_results =
     \<lparr> names = [(0, ''person''), (1, ''bicycle'')],
       xyxy = [[10, 20, 50, 80], [5, 7, 6, 9]],
       conf = [1, 0],
       cls = [1, 0] \<rparr>"

definition stub_detector :: "(dec, int, string, unit) detector" where
  "stub_detector =
     \<lparr> YOLO = (\<lambda>w. if w = ''missing.pt'' then Inl (LibraryError w) else Inr w),
       predict = (\<lambda>m img imgsz c u h d. Inr [stub_results]),
       np_sub = (\<lambda>a b. a - b),
       to_float = (\<lambda>n. Dec (n < 0) (nat \<bar>n\<bar>) 0),
       to_int = (\<lambda>n. n) \<rparr>"

section \<open>Notions of the specification\<close>

text \<open>
  The keys of the host's parameter dictionary (section 6 of the specification), and a
  well-formed dictionary, in the specification's words: it has these keys and no other,
  and each value is the text that \<^verbatim>\<open>str\<close> gives for a value of the field's type, that
  is, the text is read back as a value that is written as the same text.
\<close>

definition param_keys :: "string list" where
  "param_keys =
     [''model_name'', ''cuda'', ''input_size'', ''conf_thres'', ''iou_thres'', ''update'',
      ''model_weight_file'']"

definition canonical :: "'f builtins \<Rightarrow> string \<Rightarrow> string \<Rightarrow> bool" where
  "canonical L key v =
     (if key = ''cuda'' then
        (case strtobool L v of None \<Rightarrow> False | Some b \<Rightarrow> str_of_bool b = v)
      else if key = ''input_size'' then
        (case int_of_str L v of None \<Rightarrow> False | Some n \<Rightarrow> str_of_int L n = v)
      else if key = ''conf_thres'' \<or> key = ''iou_thres'' then
        (case float_of_str L v of None \<Rightarrow> False | Some c \<Rightarrow> str_of_float L c = v)
      else if key = ''update'' then v = str_of_bool True \<or> v = str_of_bool False
      else True)"

definition well_formed :: "'f builtins \<Rightarrow> (string \<rightharpoonup> string) \<Rightarrow> bool" where
  "well_formed L m =
     (dom m = set param_keys \<and>
      list_all (\<lambda>k. case m k of None \<Rightarrow> False | Some v \<Rightarrow> canonical L k v) param_keys)"

text \<open>
  The state a call ends in, whether it returns or raises; the number of \<^verbatim>\<open>YOLO(...)\<close>
  calls among some calls; and the detections that some calls add to the output.
\<close>

definition final :: "(py_error \<times> 's) + 's \<Rightarrow> 's" where
  "final r = (case r of Inl (e, s) \<Rightarrow> s | Inr s \<Rightarrow> s)"

fun loads :: "'f call list \<Rightarrow> nat" where
  "loads [] = 0"
| "loads (Load w # cs) = Suc (loads cs)"
| "loads (c # cs) = loads cs"

fun added :: "'f call list \<Rightarrow> 'f detection list" where
  "added [] = []"
| "added (AddObject d # cs) = d # added cs"
| "added (c # cs) = added cs"

text \<open>The calls made since the state \<open>s\<close>, in a later state \<open>s'\<close>.\<close>

definition calls_since :: "('f, 'm) InferYoloV8 \<Rightarrow> ('f, 'm) InferYoloV8 \<Rightarrow> 'f call list" where
  "calls_since s s' = drop (length (calls s)) (calls s')"

text \<open>
  The output mapping in the specification's words: the detection for the triple at
  position \<open>i\<close>, a box with corners \<open>(x1, y1, x2, y2)\<close>, a confidence and a class.
\<close>

definition expected_detection ::
  "('f, 'n, 'm, 'img) detector \<Rightarrow> nat \<Rightarrow> ('n \<times> 'n \<times> 'n \<times> 'n) \<times> 'n \<times> 'n \<Rightarrow> 'f detection" where
  "expected_detection D i t =
     (case t of ((x1, y1, x2, y2), cf, cl) \<Rightarrow>
        \<lparr> obj_index = i,
          obj_class = to_int D cl,
          obj_confidence = to_float D cf,
          obj_x = to_float D x1,
          obj_y = to_float D y1,
          obj_width = to_float D (np_sub D x2 x1),
          obj_height = to_float D (np_sub D y2 y1) \<rparr>)"

text \<open>The results that hold the triples \<open>ts\<close>, each box as a row of its four corners.\<close>

definition results_of :: "(int \<times> string) list \<Rightarrow> (('n \<times> 'n \<times> 'n \<times> 'n) \<times> 'n \<times> 'n) list \<Rightarrow> 'n results" where
  "results_of ns ts =
     \<lparr> names = ns,
       xyxy = map (\<lambda>t. case t of ((x1, y1, x2, y2), cf, cl) \<Rightarrow> [x1, y1, x2, y2]) ts,
       conf = map (\<lambda>t. case t of (b, cf, cl) \<Rightarrow> cf) ts,
       cls = map (\<lambda>t. case t of (b, cf, cl) \<Rightarrow> cl) ts \<rparr>"

section \<open>Concrete inputs\<close>

text \<open>The dictionary that \<^verbatim>\<open>get_values\<close> gives for a parameter object just built.\<close>

definition default_map :: "string \<rightharpoonup> string" where
  "default_map =
     [''model_name'' \<mapsto> ''yolov8m'', ''cuda'' \<mapsto> ''False'', ''input_size'' \<mapsto> ''640'',
      ''conf_thres'' \<mapsto> ''0.25'', ''iou_thres'' \<mapsto> ''0.7'', ''update'' \<mapsto> ''False'',
      ''model_weight_file'' \<mapsto> '''']"

text \<open>A dictionary of a changed configuration, whose dirty flag is set.\<close>

definition small_map :: "string \<rightharpoonup> string" where
  "small_map =
     [''model_name'' \<mapsto> ''yolov8n'', ''cuda'' \<mapsto> ''True'', ''input_size'' \<mapsto> ''320'',
      ''conf_thres'' \<mapsto> ''0.5'', ''iou_thres'' \<mapsto> ''0.45'', ''update'' \<mapsto> ''True'',
      ''model_weight_file'' \<mapsto> ''best.pt'']"

text \<open>The same configuration without the key \<^verbatim>\<open>update\<close>.\<close>

definition no_update_map :: "string \<rightharpoonup> string" where
  "no_update_map =
     [''model_name'' \<mapsto> ''yolov8n'', ''cuda'' \<mapsto> ''True'', ''input_size'' \<mapsto> ''320'',
      ''conf_thres'' \<mapsto> ''0.5'', ''iou_thres'' \<mapsto> ''0.45'',
      ''model_weight_file'' \<mapsto> ''best.pt'']"

text \<open>A parameter object of a changed configuration: GPU, a weight file, dirty.\<close>

definition small_param :: "dec InferYoloV8Param" where
  "small_param =
     \<lparr> model_name = ''yolov8n'', cuda = True, input_size = 320,
       conf_thres = Dec False 5 1, iou_thres = Dec False 45 2,
       update = True, model_weight_file = ''best.pt'' \<rparr>"

text \<open>The triples that the stub detector returns, and the detections expected for them.\<close>

definition stub_triples :: "((int \<times> int \<times> int \<times> int) \<times> int \<times> int) list" where
  "stub_triples = [((10, 20, 50, 80), 1, 1), ((5, 7, 6, 9), 0, 0)]"

definition stub_objects :: "dec detection list" where
  "stub_objects =
     [\<lparr> obj_index = 0, obj_class = 1, obj_confidence = Dec False 1 0,
        obj_x = Dec False 10 0, obj_y = Dec False 20 0,
        obj_width = Dec False 40 0, obj_height = Dec False 60 0 \<rparr>,
      \<lparr> obj_index = 1, obj_class = 0, obj_confidence = Dec False 0 0,
        obj_x = Dec False 5 0, obj_y = Dec False 7 0,
        obj_width = Dec False 1 0, obj_height = Dec False 2 0 \<rparr>]"




definition small_task :: "(dec, string) InferYoloV8" where
  "small_task = init_task ref_builtins (Some small_param)"


section \<open>The parameter object: lemmas\<close>

lemma getitem_upd_other: "k \<noteq> k' \<Longrightarrow> getitem (m(k' := v)) k = getitem m k"
  by (simp add: getitem_def)

lemma getitem_as_upd_other: "k \<noteq> k' \<Longrightarrow> getitem_as f (m(k' := v)) k = getitem_as f m k"
  by (simp add: getitem_as_def getitem_upd_other)

lemma set_values_upd_update:
  "set_values L (m(''update'' := v)) self = set_values L m self"
  by (simp add: set_values_def getitem_upd_other getitem_as_upd_other cong: sum.case_cong)

lemma set_values_Inr_update: "set_values L m self = Inr p \<Longrightarrow> update p = True"
  by (auto simp: set_values_def Let_def split: sum.splits)

lemma set_values_Inl_update: "set_values L m self = Inl (e, p) \<Longrightarrow> update p = update self"
  by (auto simp: set_values_def Let_def split: sum.splits)

text \<open>When every key that is read is there and every text converts, the call returns.\<close>

lemma set_values_success:
  assumes "m ''model_name'' = Some v1"
    and "m ''cuda'' = Some v2" and "strtobool L v2 = Some b"
    and "m ''input_size'' = Some v3" and "int_of_str L v3 = Some n"
    and "m ''conf_thres'' = Some v4" and "float_of_str L v4 = Some c"
    and "m ''iou_thres'' = Some v5" and "float_of_str L v5 = Some u"
    and "m ''model_weight_file'' = Some w"
  shows "set_values L m self =
           Inr \<lparr> model_name = v1, cuda = b, input_size = n, conf_thres = c, iou_thres = u,
                 update = True, model_weight_file = w \<rparr>"
  using assms by (simp add: set_values_def getitem_def getitem_as_def)

lemma set_values_isl_iff:
  "isl (set_values L m self) \<longleftrightarrow>
     (m ''model_name'' = None \<or> m ''cuda'' = None \<or> m ''input_size'' = None \<or>
      m ''conf_thres'' = None \<or> m ''iou_thres'' = None \<or> m ''model_weight_file'' = None \<or>
      (\<exists>v. m ''cuda'' = Some v \<and> strtobool L v = None) \<or>
      (\<exists>v. m ''input_size'' = Some v \<and> int_of_str L v = None) \<or>
      (\<exists>v. m ''conf_thres'' = Some v \<and> float_of_str L v = None) \<or>
      (\<exists>v. m ''iou_thres'' = Some v \<and> float_of_str L v = None))"
  by (auto simp: set_values_def getitem_def getitem_as_def Let_def split: option.splits)

lemma set_values_Inr_fields:
  assumes "set_values L m self = Inr p"
  shows "m ''model_name'' = Some (model_name p) \<and>
     (\<exists>v. m ''cuda'' = Some v \<and> strtobool L v = Some (cuda p)) \<and>
     (\<exists>v. m ''input_size'' = Some v \<and> int_of_str L v = Some (input_size p)) \<and>
     (\<exists>v. m ''conf_thres'' = Some v \<and> float_of_str L v = Some (conf_thres p)) \<and>
     (\<exists>v. m ''iou_thres'' = Some v \<and> float_of_str L v = Some (iou_thres p)) \<and>
     m ''model_weight_file'' = Some (model_weight_file p) \<and>
     update p = True"
  using assms
  by (auto simp: set_values_def getitem_def getitem_as_def Let_def split: option.splits)

lemma get_values_record:
  "get_values L \<lparr> model_name = v1, cuda = b, input_size = n, conf_thres = c, iou_thres = u,
                   update = d, model_weight_file = w \<rparr> =
     [''model_name'' \<mapsto> v1, ''cuda'' \<mapsto> str_of_bool b, ''input_size'' \<mapsto> str_of_int L n,
      ''conf_thres'' \<mapsto> str_of_float L c, ''iou_thres'' \<mapsto> str_of_float L u,
      ''update'' \<mapsto> str_of_bool d, ''model_weight_file'' \<mapsto> w]"
  by (simp add: get_values_def)

lemma set_values_roundtrip:
  assumes wf: "well_formed L m"
  shows "\<exists>p. set_values L m self = Inr p \<and> get_values L p = m(''update'' \<mapsto> ''True'')"
proof -
  have d: "dom m = set param_keys" using wf by (simp add: well_formed_def)
  have each: "list_all (\<lambda>k. case m k of None \<Rightarrow> False | Some v \<Rightarrow> canonical L k v) param_keys"
    using wf by (simp add: well_formed_def)
  obtain v1 where v1: "m ''model_name'' = Some v1"
    using each by (auto simp: param_keys_def split: option.splits)
  obtain v2 b where v2: "m ''cuda'' = Some v2" "strtobool L v2 = Some b" "str_of_bool b = v2"
    using each by (auto simp: param_keys_def canonical_def split: option.splits)
  obtain v3 n where v3: "m ''input_size'' = Some v3" "int_of_str L v3 = Some n" "str_of_int L n = v3"
    using each by (auto simp: param_keys_def canonical_def split: option.splits)
  obtain v4 c where v4: "m ''conf_thres'' = Some v4" "float_of_str L v4 = Some c" "str_of_float L c = v4"
    using each by (auto simp: param_keys_def canonical_def split: option.splits)
  obtain v5 u where v5: "m ''iou_thres'' = Some v5" "float_of_str L v5 = Some u" "str_of_float L u = v5"
    using each by (auto simp: param_keys_def canonical_def split: option.splits)
  obtain w where w: "m ''model_weight_file'' = Some w"
    using each by (auto simp: param_keys_def split: option.splits)
  let ?p = "\<lparr> model_name = v1, cuda = b, input_size = n, conf_thres = c, iou_thres = u,
               update = True, model_weight_file = w \<rparr>"
  have sv: "set_values L m self = Inr ?p"
    using v1 v2(1,2) v3(1,2) v4(1,2) v5(1,2) w by (rule set_values_success)
  have "get_values L ?p k = (m(''update'' \<mapsto> ''True'')) k" for k
  proof (cases "k \<in> set param_keys")
    case True
    then show ?thesis
      using v1 v2 v3 v4 v5 w
      by (auto simp: get_values_record param_keys_def str_of_bool_def)
  next
    case False
    then have "m k = None" using d by (auto simp: domIff)
    with False show ?thesis
      by (simp add: get_values_record param_keys_def)
  qed
  then have "get_values L ?p = m(''update'' \<mapsto> ''True'')" by (rule ext)
  with sv show ?thesis by blast
qed

text \<open>The three dictionaries of the examples, under the stand-in interpreter.\<close>

lemma well_formed_default_map: "well_formed ref_builtins default_map"
  unfolding well_formed_def
  apply (rule conjI)
   apply (simp add: default_map_def param_keys_def)
   apply auto[1]
  apply (simp add: default_map_def param_keys_def canonical_def ref_builtins_def str_of_bool_def)
  apply code_simp
  done

lemma well_formed_small_map: "well_formed ref_builtins small_map"
  unfolding well_formed_def
  apply (rule conjI)
   apply (simp add: small_map_def param_keys_def)
   apply auto[1]
  apply (simp add: small_map_def param_keys_def canonical_def ref_builtins_def str_of_bool_def)
  apply code_simp
  done

lemma set_values_default_map:
  "set_values ref_builtins default_map self =
     Inr \<lparr> model_name = ''yolov8m'', cuda = False, input_size = 640,
           conf_thres = Dec False 25 2, iou_thres = Dec False 7 1,
           update = True, model_weight_file = [] \<rparr>"
  apply (rule set_values_success
      [where ?v2.0 = "''False''" and ?v3.0 = "''640''" and ?v4.0 = "''0.25''" and ?v5.0 = "''0.7''"])
           apply (simp_all add: default_map_def ref_builtins_def)
      apply code_simp+
  done

lemma set_values_small_map:
  "set_values ref_builtins small_map self =
     Inr \<lparr> model_name = ''yolov8n'', cuda = True, input_size = 320,
           conf_thres = Dec False 5 1, iou_thres = Dec False 45 2,
           update = True, model_weight_file = ''best.pt'' \<rparr>"
  apply (rule set_values_success
      [where ?v2.0 = "''True''" and ?v3.0 = "''320''" and ?v4.0 = "''0.5''" and ?v5.0 = "''0.45''"])
           apply (simp_all add: small_map_def ref_builtins_def)
      apply code_simp+
  done

lemma set_values_no_update_map:
  "set_values ref_builtins no_update_map self =
     Inr \<lparr> model_name = ''yolov8n'', cuda = True, input_size = 320,
           conf_thres = Dec False 5 1, iou_thres = Dec False 45 2,
           update = True, model_weight_file = ''best.pt'' \<rparr>"
  apply (rule set_values_success
      [where ?v2.0 = "''True''" and ?v3.0 = "''320''" and ?v4.0 = "''0.5''" and ?v5.0 = "''0.45''"])
           apply (simp_all add: no_update_map_def ref_builtins_def)
      apply code_simp+
  done

section \<open>The parameter object: claims\<close>

text \<open>
  Claim C1, as the specification states it: for every well-formed dictionary \<open>m\<close> with the
  seven keys, \<^verbatim>\<open>set_values(m)\<close> followed by \<^verbatim>\<open>get_values()\<close> returns \<open>m\<close>. It fails on the
  dictionary of a parameter object just built, whose entry \<^verbatim>\<open>update\<close> is \<^verbatim>\<open>False\<close>:
  \<^verbatim>\<open>set_values\<close> sets the dirty flag whatever the dictionary says, so \<^verbatim>\<open>get_values\<close>
  answers \<^verbatim>\<open>True\<close> there.
\<close>

theorem roundtrip_counterexample:
  "well_formed ref_builtins default_map \<and>
   \<not> isl (set_values ref_builtins default_map (init_param ref_builtins)) \<and>
   get_values ref_builtins (projr (set_values ref_builtins default_map (init_param ref_builtins)))
     ''update'' = Some ''True'' \<and>
   default_map ''update'' = Some ''False'' \<and>
   get_values ref_builtins (projr (set_values ref_builtins default_map (init_param ref_builtins)))
     \<noteq> default_map"
proof -
  let ?p = "projr (set_values ref_builtins default_map (init_param ref_builtins))"
  have u: "get_values ref_builtins ?p ''update'' = Some ''True''"
    unfolding set_values_default_map by (simp add: get_values_record str_of_bool_def)
  have v: "default_map ''update'' = Some ''False''"
    by (simp add: default_map_def)
  from u v have "get_values ref_builtins ?p ''update'' \<noteq> default_map ''update''" by simp
  then have "get_values ref_builtins ?p \<noteq> default_map" by metis
  moreover have "\<not> isl (set_values ref_builtins default_map (init_param ref_builtins))"
    by (simp add: set_values_default_map)
  ultimately show ?thesis using u v well_formed_default_map by blast
qed

text \<open>
  Claim C1, amended: for every well-formed dictionary \<open>m\<close> (exactly the seven keys, each
  value the text that \<^verbatim>\<open>str\<close> gives for the value read from it), \<^verbatim>\<open>set_values(m)\<close>
  returns, and \<^verbatim>\<open>get_values()\<close> then returns \<open>m\<close> with the entry \<^verbatim>\<open>update\<close> replaced by
  \<^verbatim>\<open>True\<close>; so it returns \<open>m\<close> itself exactly when the entry \<^verbatim>\<open>update\<close> of \<open>m\<close> is
  \<^verbatim>\<open>True\<close>.
\<close>

theorem roundtrip_up_to_update:
  assumes "well_formed L m"
  shows "\<exists>p. set_values L m self = Inr p \<and>
              get_values L p = m(''update'' \<mapsto> ''True'') \<and>
              (get_values L p = m \<longleftrightarrow> m ''update'' = Some ''True'')"
proof -
  from set_values_roundtrip[OF assms, of self] obtain p where
    p: "set_values L m self = Inr p" "get_values L p = m(''update'' \<mapsto> ''True'')" by blast
  have "(m(''update'' \<mapsto> ''True'') = m) \<longleftrightarrow> m ''update'' = Some ''True''"
    by (metis fun_upd_same fun_upd_triv)
  with p show ?thesis by simp
qed

theorem roundtrip_up_to_update_witness:
  "well_formed ref_builtins small_map \<and>
   \<not> isl (set_values ref_builtins small_map (init_param ref_builtins)) \<and>
   get_values ref_builtins (projr (set_values ref_builtins small_map (init_param ref_builtins)))
     = small_map"
proof -
  have u: "small_map ''update'' = Some ''True''" by (simp add: small_map_def)
  from roundtrip_up_to_update[OF well_formed_small_map, of "init_param ref_builtins"]
  obtain p where p: "set_values ref_builtins small_map (init_param ref_builtins) = Inr p"
    and g: "get_values ref_builtins p = small_map \<longleftrightarrow> small_map ''update'' = Some ''True''"
    by blast
  from g u have "get_values ref_builtins p = small_map" by simp
  with p well_formed_small_map show ?thesis by simp
qed

text \<open>
  Claim C3, as the specification states it: \<^verbatim>\<open>set_values\<close> fails if and only if one of
  the seven keys of the host's dictionary is absent or its value does not convert. It
  fails on a dictionary without the key \<^verbatim>\<open>update\<close>: \<^verbatim>\<open>set_values\<close> never reads that
  key, and returns.
\<close>

theorem set_values_without_update_counterexample:
  "no_update_map ''update'' = None \<and>
   \<not> isl (set_values ref_builtins no_update_map (init_param ref_builtins))"
  by (simp add: set_values_no_update_map) (simp add: no_update_map_def)

text \<open>
  Claim C3, amended: \<^verbatim>\<open>set_values(mapping)\<close> fails if and only if one of the six keys
  \<^verbatim>\<open>model_name\<close>, \<^verbatim>\<open>cuda\<close>, \<^verbatim>\<open>input_size\<close>, \<^verbatim>\<open>conf_thres\<close>, \<^verbatim>\<open>iou_thres\<close>,
  \<^verbatim>\<open>model_weight_file\<close> is absent from the mapping, or the value of \<^verbatim>\<open>cuda\<close>,
  \<^verbatim>\<open>input_size\<close>, \<^verbatim>\<open>conf_thres\<close> or \<^verbatim>\<open>iou_thres\<close> does not convert to the type of its
  field; the entry \<^verbatim>\<open>update\<close> is neither required nor read. When it returns, each field
  of the parameter object holds the value of its key, the dirty flag is set, and nothing
  else has changed.
\<close>

theorem set_values_fails_iff:
  "(isl (set_values L m self) \<longleftrightarrow>
      (m ''model_name'' = None \<or> m ''cuda'' = None \<or> m ''input_size'' = None \<or>
       m ''conf_thres'' = None \<or> m ''iou_thres'' = None \<or> m ''model_weight_file'' = None \<or>
       (\<exists>v. m ''cuda'' = Some v \<and> strtobool L v = None) \<or>
       (\<exists>v. m ''input_size'' = Some v \<and> int_of_str L v = None) \<or>
       (\<exists>v. m ''conf_thres'' = Some v \<and> float_of_str L v = None) \<or>
       (\<exists>v. m ''iou_thres'' = Some v \<and> float_of_str L v = None))) \<and>
   set_values L (m(''update'' := v')) self = set_values L m self \<and>
   (\<forall>p. set_values L m self = Inr p \<longrightarrow>
      m ''model_name'' = Some (model_name p) \<and>
      (\<exists>v. m ''cuda'' = Some v \<and> strtobool L v = Some (cuda p)) \<and>
      (\<exists>v. m ''input_size'' = Some v \<and> int_of_str L v = Some (input_size p)) \<and>
      (\<exists>v. m ''conf_thres'' = Some v \<and> float_of_str L v = Some (conf_thres p)) \<and>
      (\<exists>v. m ''iou_thres'' = Some v \<and> float_of_str L v = Some (iou_thres p)) \<and>
      m ''model_weight_file'' = Some (model_weight_file p) \<and>
      update p = True)"
  using set_values_isl_iff[of L m self] set_values_upd_update[of L m v' self]
    set_values_Inr_fields[of L m self]
  by blast

theorem set_values_fails_iff_witness:
  "\<not> isl (set_values ref_builtins small_map (init_param ref_builtins)) \<and>
   model_name (projr (set_values ref_builtins small_map (init_param ref_builtins))) = ''yolov8n'' \<and>
   small_map ''model_name'' = Some ''yolov8n'' \<and>
   update (projr (set_values ref_builtins small_map (init_param ref_builtins))) = True \<and>
   isl (set_values ref_builtins (small_map(''input_size'' \<mapsto> ''big'')) (init_param ref_builtins)) \<and>
   isl (set_values ref_builtins (small_map(''cuda'' := None)) (init_param ref_builtins))"
proof -
  let ?p0 = "init_param ref_builtins"
  have r: "set_values ref_builtins small_map ?p0 = Inr (projr (set_values ref_builtins small_map ?p0))"
    by (simp add: set_values_small_map)
  have a: "m ''model_name'' = Some (model_name p) \<and> update p = True"
    if "set_values ref_builtins m ?p0 = Inr p" for m p
    using set_values_fails_iff[of ref_builtins m ?p0 None] that by blast
  have b: "isl (set_values ref_builtins m ?p0)"
    if "m ''cuda'' = None \<or> (\<exists>v. m ''input_size'' = Some v \<and> int_of_str ref_builtins v = None)" for m
    using set_values_fails_iff[of ref_builtins m ?p0 None] that by blast
  have big: "int_of_str ref_builtins ''big'' = None"
    by (simp add: ref_builtins_def) code_simp
  have "isl (set_values ref_builtins (small_map(''input_size'' \<mapsto> ''big'')) ?p0)"
    by (rule b) (simp add: big)
  moreover have "isl (set_values ref_builtins (small_map(''cuda'' := None)) ?p0)"
    by (rule b) simp
  moreover have "small_map ''model_name'' = Some ''yolov8n''"
    by (simp add: small_map_def)
  moreover have "\<not> isl (set_values ref_builtins small_map ?p0)"
    by (simp add: set_values_small_map)
  moreover have "model_name (projr (set_values ref_builtins small_map ?p0)) = ''yolov8n''"
    by (simp add: set_values_small_map)
  ultimately show ?thesis using a[OF r] by simp
qed

text \<open>
  Claim C5: a parameter object just built has the model name \<^verbatim>\<open>yolov8m\<close> (the medium
  preset), the input size 640, the confidence threshold 0.25, the IoU threshold 0.7,
  the GPU flag set if and only if CUDA is available, the dirty flag not set, and an
  empty path of the weight file.
\<close>

theorem init_param_defaults:
  "model_name (init_param L) = ''yolov8m'' \<and>
   input_size (init_param L) = 640 \<and>
   conf_thres (init_param L) = float_lit L ''0.25'' \<and>
   iou_thres (init_param L) = float_lit L ''0.7'' \<and>
   cuda (init_param L) = is_available L \<and>
   update (init_param L) = False \<and>
   model_weight_file (init_param L) = []"
  by (simp add: init_param_def)

text \<open>
  Claim C9, as stated: for every input mapping \<^verbatim>\<open>set_values\<close> sets the dirty flag of
  the parameter object. It fails on the empty mapping: \<^verbatim>\<open>param_map["model_name"]\<close>
  raises, the assignment of the flag, which is the last statement, is not reached, and
  the flag of an object just built stays \<^verbatim>\<open>False\<close>.
\<close>

theorem set_values_empty_map_counterexample:
  "set_values ref_builtins Map.empty (init_param ref_builtins) =
     Inl (KeyError ''model_name'', init_param ref_builtins) \<and>
   update (init_param ref_builtins) = False \<and>
   update (snd (projl (set_values ref_builtins Map.empty (init_param ref_builtins)))) = False"
  by (simp add: set_values_def getitem_def init_param_def)

text \<open>
  Claim C9, amended: whenever \<^verbatim>\<open>set_values\<close> returns, the dirty flag of the parameter
  object is set, and what the mapping holds (or does not hold) under the key \<^verbatim>\<open>update\<close>
  changes nothing of what \<^verbatim>\<open>set_values\<close> does; when it raises, the flag is as it was
  before the call. So the flag never reflects the entry \<^verbatim>\<open>update\<close> of the mapping.
\<close>

theorem set_values_sets_update:
  "set_values L (m(''update'' := v)) self = set_values L m self \<and>
   (\<forall>p. set_values L m self = Inr p \<longrightarrow> update p = True) \<and>
   (\<forall>e p. set_values L m self = Inl (e, p) \<longrightarrow> update p = update self)"
  using set_values_upd_update[of L m v self] set_values_Inr_update[of L m self]
    set_values_Inl_update[of L m self]
  by blast

theorem set_values_sets_update_witness:
  "default_map ''update'' = Some ''False'' \<and>
   update (init_param ref_builtins) = False \<and>
   \<not> isl (set_values ref_builtins default_map (init_param ref_builtins)) \<and>
   update (projr (set_values ref_builtins default_map (init_param ref_builtins))) = True \<and>
   set_values ref_builtins (default_map(''update'' \<mapsto> ''True'')) (init_param ref_builtins) =
     set_values ref_builtins default_map (init_param ref_builtins) \<and>
   set_values ref_builtins (default_map(''update'' := None)) (init_param ref_builtins) =
     set_values ref_builtins default_map (init_param ref_builtins)"
proof -
  let ?p0 = "init_param ref_builtins"
  have r: "set_values ref_builtins default_map ?p0 =
      Inr (projr (set_values ref_builtins default_map ?p0))"
    by (simp add: set_values_default_map)
  have "update (projr (set_values ref_builtins default_map ?p0)) = True"
    using set_values_sets_update[of ref_builtins default_map None ?p0] r by blast
  moreover have "set_values ref_builtins (default_map(''update'' := w)) ?p0 =
      set_values ref_builtins default_map ?p0" for w
    using set_values_sets_update[of ref_builtins default_map w ?p0] by blast
  moreover have "default_map ''update'' = Some ''False''"
    by (simp add: default_map_def)
  moreover have "update ?p0 = False" by (simp add: init_param_def)
  moreover have "\<not> isl (set_values ref_builtins default_map ?p0)"
    by (simp add: set_values_default_map)
  ultimately show ?thesis by simp
qed

section \<open>The widget: claims\<close>

text \<open>
  Claim C8: on the apply action the widget copies the value of each control (model
  name, GPU flag, input size, confidence threshold, IoU threshold) into the bound
  parameter object, sets the dirty flag, and then gives the parameter object, with
  these values, to the host's \<^verbatim>\<open>emit_apply\<close>; the controls keep their values.
\<close>

theorem on_apply_copies_controls:
  "model_name (parameters (on_apply w)) = combo_model w \<and>
   cuda (parameters (on_apply w)) = check_cuda w \<and>
   input_size (parameters (on_apply w)) = spin_input_size w \<and>
   conf_thres (parameters (on_apply w)) = spin_conf_thres w \<and>
   iou_thres (parameters (on_apply w)) = spin_iou_thres w \<and>
   update (parameters (on_apply w)) = True \<and>
   emitted (on_apply w) = emitted w @ [parameters (on_apply w)] \<and>
   combo_model (on_apply w) = combo_model w \<and>
   check_cuda (on_apply w) = check_cuda w \<and>
   spin_input_size (on_apply w) = spin_input_size w \<and>
   spin_conf_thres (on_apply w) = spin_conf_thres w \<and>
   spin_iou_thres (on_apply w) = spin_iou_thres w"
  by (simp add: on_apply_def)

text \<open>
  Claim C10: the apply action leaves the path of the weight file as it is: whatever
  the controls hold, the parameter object after \<^verbatim>\<open>on_apply\<close> is the one before with
  only \<^verbatim>\<open>model_name\<close>, \<^verbatim>\<open>cuda\<close>, \<^verbatim>\<open>input_size\<close>, \<^verbatim>\<open>conf_thres\<close>, \<^verbatim>\<open>iou_thres\<close> and
  \<^verbatim>\<open>update\<close> assigned, and its \<^verbatim>\<open>model_weight_file\<close> is the same.
\<close>

theorem on_apply_keeps_weight_file:
  "model_weight_file (parameters (on_apply w)) = model_weight_file (parameters w) \<and>
   parameters (on_apply w) =
     (parameters w)\<lparr> model_name := combo_model w, cuda := check_cuda w,
                     input_size := spin_input_size w, conf_thres := spin_conf_thres w,
                     iou_thres := spin_iou_thres w, update := True \<rparr>"
  by (simp add: on_apply_def)

section \<open>The task: lemmas\<close>

lemma loads_append: "loads (xs @ ys) = loads xs + loads ys"
  by (induction xs rule: loads.induct) simp_all

lemma added_append: "added (xs @ ys) = added xs @ added ys"
  by (induction xs rule: added.induct) simp_all

lemma loads_AddObject: "loads (map AddObject ds) = 0"
  by (induction ds) simp_all

lemma added_AddObject: "added (map AddObject ds) = ds"
  by (induction ds) simp_all

lemma add_objects_final:
  "\<exists>ds. final (add_objects D i ts s) =
          s\<lparr>objects := objects s @ ds, calls := calls s @ map AddObject ds\<rparr>"
proof (induction ts arbitrary: i s)
  case Nil
  have "final (add_objects D i [] s) = s\<lparr>objects := objects s @ [], calls := calls s @ map AddObject []\<rparr>"
    by (simp add: final_def)
  then show ?case by blast
next
  case (Cons t ts)
  obtain box cf cl where t: "t = (box, cf, cl)" by (cases t) auto
  show ?case
  proof (cases "length box < 4")
    case True
    then have "final (add_objects D i (t # ts) s) =
        s\<lparr>objects := objects s @ [], calls := calls s @ map AddObject []\<rparr>"
      by (simp add: t final_def)
    then show ?thesis by blast
  next
    case False
    define d where "d = \<lparr> obj_index = i, obj_class = to_int D cl, obj_confidence = to_float D cf,
       obj_x = to_float D (box ! 0), obj_y = to_float D (box ! 1),
       obj_width = to_float D (np_sub D (box ! 2) (box ! 0)),
       obj_height = to_float D (np_sub D (box ! 3) (box ! 1)) \<rparr>"
    have step: "add_objects D i (t # ts) s = add_objects D (Suc i) ts (add_object d s)"
      using False by (simp add: t d_def Let_def)
    from Cons.IH[of "Suc i" "add_object d s"] obtain ds where
      ds: "final (add_objects D (Suc i) ts (add_object d s)) =
        (add_object d s)\<lparr>objects := objects (add_object d s) @ ds,
           calls := calls (add_object d s) @ map AddObject ds\<rparr>" by blast
    have "final (add_objects D i (t # ts) s) =
        s\<lparr>objects := objects s @ (d # ds), calls := calls s @ map AddObject (d # ds)\<rparr>"
      unfolding step ds by (simp add: add_object_def notify_def)
    then show ?thesis by blast
  qed
qed

lemma add_objects_results_of:
  "add_objects D i
     (zip (xyxy (results_of ns ts)) (zip (conf (results_of ns ts)) (cls (results_of ns ts)))) s =
   Inr (s\<lparr>objects := objects s @ map (\<lambda>(j, t). expected_detection D j t) (enumerate i ts),
          calls := calls s @ map AddObject (map (\<lambda>(j, t). expected_detection D j t) (enumerate i ts))\<rparr>)"
proof (induction ts arbitrary: i s)
  case Nil
  then show ?case by (simp add: results_of_def)
next
  case (Cons t ts)
  obtain x1 y1 x2 y2 cf cl where t: "t = ((x1, y1, x2, y2), cf, cl)" by (cases t) auto
  show ?case
    using Cons.IH[of "Suc i" "add_object (expected_detection D i t) s"]
    by (simp add: t results_of_def expected_detection_def add_object_def notify_def Let_def)
qed

lemma add_objects_InrD:
  "add_objects D i ts s = Inr s' \<Longrightarrow>
     \<exists>ds. s' = s\<lparr>objects := objects s @ ds, calls := calls s @ map AddObject ds\<rparr>"
  using add_objects_final[of D i ts s] by (simp add: final_def)

lemma add_objects_InlD:
  "add_objects D i ts s = Inl (e, s') \<Longrightarrow>
     \<exists>ds. s' = s\<lparr>objects := objects s @ ds, calls := calls s @ map AddObject ds\<rparr>"
  using add_objects_final[of D i ts s] by (simp add: final_def)

lemma load_model_cases:
  "load_model D s =
     (if update (param s) \<or> model s = None then
        (case YOLO D (weights_of (param s)) of
           Inl e \<Rightarrow>
             Inl (e, s\<lparr>device := (if cuda (param s) then Cuda else Cpu), half := cuda (param s),
                        calls := calls s @ [Load (weights_of (param s))]\<rparr>)
         | Inr m \<Rightarrow>
             Inr (s\<lparr>device := (if cuda (param s) then Cuda else Cpu), half := cuda (param s),
                    calls := calls s @ [Load (weights_of (param s))], model := Some m,
                    param := (param s)\<lparr>update := False\<rparr>\<rparr>))
      else Inr s)"
  by (simp add: load_model_def notify_def Let_def split: sum.splits)

text \<open>After the loading block a model is there: \<^verbatim>\<open>self.model.predict\<close> finds one.\<close>

lemma load_model_Inr_model: "load_model D s = Inr s1 \<Longrightarrow> model s1 \<noteq> None"
  by (auto simp: load_model_cases split: if_splits sum.splits)

lemma run_Inr:
  assumes "run D img self = Inr s'"
  shows "\<exists>m r0 rs ds.
     model s' = Some m \<and>
     param s' = (param self)\<lparr>update := False\<rparr> \<and>
     (if update (param self) \<or> model self = None
      then YOLO D (weights_of (param self)) = Inr m \<and>
           device s' = (if cuda (param self) then Cuda else Cpu) \<and> half s' = cuda (param self)
      else model self = Some m \<and> device s' = device self \<and> half s' = half self) \<and>
     predict D m img (input_size (param self)) (conf_thres (param self)) (iou_thres (param self))
       (half s') (device s') = Inr (r0 # rs) \<and>
     classes s' = Some (map snd (names r0)) \<and>
     output_names s' = map snd (names r0) \<and>
     task_model_name s' = task_model_name self \<and>
     objects s' = ds \<and>
     calls s' = calls self @ [BeginTaskRun, ClearData] @
       (if update (param self) \<or> model self = None then [Load (weights_of (param self))] else []) @
       [Predict (input_size (param self)) (conf_thres (param self)) (iou_thres (param self))
          (half s') (device s'), SetNames (map snd (names r0))] @
       map AddObject ds @ [EmitStepProgress, EndTaskRun]"
proof -
  define s0 where "s0 = clear_data (notify BeginTaskRun self)"
  have s0: "s0 = self\<lparr>objects := [], calls := calls self @ [BeginTaskRun, ClearData]\<rparr>"
    by (simp add: s0_def clear_data_def notify_def)
  from assms obtain s1 where l: "load_model D s0 = Inr s1"
    by (auto simp: run_def s0_def Let_def split: sum.splits)
  from assms l obtain m where m: "model s1 = Some m"
    by (auto simp: run_def s0_def Let_def split: sum.splits option.splits)
  define s2 where "s2 = notify (Predict (input_size (param s1)) (conf_thres (param s1))
                   (iou_thres (param s1)) (half s1) (device s1)) s1"
  from assms l m obtain r0 rs where p: "predict D m img (input_size (param s1)) (conf_thres (param s1))
                   (iou_thres (param s1)) (half s1) (device s1) = Inr (r0 # rs)"
    by (auto simp: run_def s0_def Let_def notify_def split: sum.splits option.splits list.splits)
  define s3 where "s3 = set_names (map snd (names r0)) (s2\<lparr>classes := Some (map snd (names r0))\<rparr>)"
  from assms l m p obtain s4 where a: "add_objects D 0 (zip (xyxy r0) (zip (conf r0) (cls r0))) s3 = Inr s4"
    and s': "s' = notify EndTaskRun (notify EmitStepProgress s4)"
    by (auto simp: run_def s0_def s2_def s3_def Let_def notify_def split: sum.splits option.splits list.splits)
  from add_objects_InrD[OF a] obtain ds where
    s4: "s4 = s3\<lparr>objects := objects s3 @ ds, calls := calls s3 @ map AddObject ds\<rparr>" by blast
  show ?thesis
    using l m p
    by (auto simp: s' s4 s3_def s2_def s0 load_model_cases notify_def set_names_def
          split: if_splits sum.splits)
qed


lemma run_shape:
  "\<exists>rest.
     calls (final (run D img self)) =
       calls self @ [BeginTaskRun, ClearData] @
       (if update (param self) \<or> model self = None then [Load (weights_of (param self))] else []) @ rest \<and>
     loads rest = 0 \<and>
     objects (final (run D img self)) = added rest \<and>
     (update (param self) \<or> model self = None \<longrightarrow>
        device (final (run D img self)) = (if cuda (param self) then Cuda else Cpu) \<and>
        half (final (run D img self)) = cuda (param self))"
  by (auto simp: run_def final_def Let_def load_model_cases clear_data_def notify_def set_names_def
        loads_append added_append loads_AddObject added_AddObject
      split: sum.splits option.splits list.splits if_splits prod.splits
      dest!: add_objects_InrD add_objects_InlD)

lemma notify_sel:
  "param (notify c s) = param s" "device (notify c s) = device s" "half (notify c s) = half s"
  "model (notify c s) = model s" "objects (notify c s) = objects s"
  by (simp_all add: notify_def)

lemma run_returns:
  assumes l: "load_model D (clear_data (notify BeginTaskRun self)) = Inr s1"
    and m: "model s1 = Some m"
    and p: "predict D m img (input_size (param s1)) (conf_thres (param s1)) (iou_thres (param s1))
              (half s1) (device s1) = Inr (results_of ns ts # rs)"
  shows "\<exists>s'. run D img self = Inr s' \<and>
           objects s' = map (\<lambda>(i, t). expected_detection D i t) (enumerate 0 ts) \<and>
           output_names s' = map snd ns"
proof -
  have o: "objects s1 = []"
    using l by (auto simp: load_model_cases clear_data_def notify_def split: if_splits sum.splits)
  show ?thesis
    unfolding run_def Let_def l
    apply (simp add: m notify_sel)
    apply (simp add: p add_objects_results_of)
    apply (simp add: notify_def set_names_def o results_of_def)
    done
qed


lemma run_ignores_objects: "run D img (self\<lparr>objects := os\<rparr>) = run D img self"
  by (simp add: run_def clear_data_def notify_def)

lemma run_calls_since:
  "\<exists>rest.
     calls_since self (final (run D img self)) =
       [BeginTaskRun, ClearData] @
       (if update (param self) \<or> model self = None then [Load (weights_of (param self))] else []) @ rest \<and>
     loads rest = 0 \<and>
     objects (final (run D img self)) = added rest"
  using run_shape[of D img self] by (auto simp: calls_since_def)




text \<open>The stub detector: what it returns, and that \<^verbatim>\<open>run\<close> returns with it.\<close>

lemma stub_results_of:
  "stub_results = results_of [(0, ''person''), (1, ''bicycle'')] stub_triples"
  by (simp add: stub_results_def results_of_def stub_triples_def)

lemma stub_predict:
  "predict stub_detector m img n c u h d =
     Inr (results_of [(0, ''person''), (1, ''bicycle'')] stub_triples # [])"
  by (simp add: stub_detector_def stub_results_of)

lemma stub_expected:
  "map (\<lambda>(i, t). expected_detection stub_detector i t) (enumerate 0 stub_triples) = stub_objects"
  by (simp add: stub_triples_def stub_objects_def expected_detection_def stub_detector_def)

lemma stub_load:
  assumes "weights_of (param s) \<noteq> ''missing.pt''"
  shows "\<exists>s1 m. load_model stub_detector s = Inr s1 \<and> model s1 = Some m"
  using assms by (auto simp: load_model_cases stub_detector_def)

lemma run_stub:
  assumes "weights_of (param s) \<noteq> ''missing.pt''"
  shows "\<exists>s'. run stub_detector img s = Inr s' \<and> objects s' = stub_objects"
proof -
  have "weights_of (param (clear_data (notify BeginTaskRun s))) \<noteq> ''missing.pt''"
    using assms by (simp add: clear_data_def notify_def)
  from stub_load[OF this] obtain s1 m where
    l: "load_model stub_detector (clear_data (notify BeginTaskRun s)) = Inr s1"
    and m: "model s1 = Some m" by blast
  from run_returns[OF l m stub_predict] show ?thesis
    by (auto simp: stub_expected)
qed

lemma weights_fresh: "weights_of (param (init_task ref_builtins None)) = ''yolov8m.pt''"
  by (simp add: weights_of_def init_task_def init_param_def)




lemma run_small_task: "\<not> isl (run stub_detector () small_task)"
  using run_stub[of small_task "()"]
  by (auto simp: small_task_def init_task_def small_param_def weights_of_def)

section \<open>The task: claims\<close>

text \<open>
  Claim C2: for every sequence of (box, confidence, class) triples that the detector
  returns, \<^verbatim>\<open>run\<close> returns and the output holds one detection per triple, in the
  detector's order: the detection at position \<open>i\<close> has the index \<open>i\<close>, the class
  \<^verbatim>\<open>int(cls)\<close>, the confidence \<^verbatim>\<open>float(conf)\<close>, and for the corners \<open>(x1, y1, x2, y2)\<close>
  of the box \<open>x = x1\<close>, \<open>y = y1\<close>, \<open>width = x2 - x1\<close> and \<open>height = y2 - y1\<close>. The
  hypotheses say that the block loading the model returns, in the state \<open>s1\<close>, and
  that the call of \<^verbatim>\<open>predict\<close> made there returns the triples \<open>ts\<close>.
\<close>

theorem run_output_mapping:
  assumes "load_model D (clear_data (notify BeginTaskRun self)) = Inr s1"
    and "model s1 = Some m"
    and "predict D m img (input_size (param s1)) (conf_thres (param s1)) (iou_thres (param s1))
           (half s1) (device s1) = Inr (results_of ns ts # rs)"
  shows "\<exists>s'. run D img self = Inr s' \<and>
     length (objects s') = length ts \<and>
     objects s' = map (\<lambda>(i, t). expected_detection D i t) (enumerate 0 ts) \<and>
     (\<forall>i < length ts. \<forall>x1 y1 x2 y2 cf cl. ts ! i = ((x1, y1, x2, y2), cf, cl) \<longrightarrow>
        objects s' ! i =
          \<lparr> obj_index = i, obj_class = to_int D cl, obj_confidence = to_float D cf,
            obj_x = to_float D x1, obj_y = to_float D y1,
            obj_width = to_float D (np_sub D x2 x1),
            obj_height = to_float D (np_sub D y2 y1) \<rparr>)"
proof -
  from run_returns[OF assms] obtain s' where r: "run D img self = Inr s'"
    and o: "objects s' = map (\<lambda>(i, t). expected_detection D i t) (enumerate 0 ts)" by blast
  have "objects s' ! i = expected_detection D i (ts ! i)" if "i < length ts" for i
    using that by (simp add: o nth_enumerate_eq)
  then show ?thesis using r o by (auto simp: expected_detection_def)
qed

theorem run_output_mapping_witness:
  "\<not> isl (run stub_detector () (init_task ref_builtins None)) \<and>
   objects (projr (run stub_detector () (init_task ref_builtins None))) =
     [\<lparr> obj_index = 0, obj_class = 1, obj_confidence = Dec False 1 0,
        obj_x = Dec False 10 0, obj_y = Dec False 20 0,
        obj_width = Dec False 40 0, obj_height = Dec False 60 0 \<rparr>,
      \<lparr> obj_index = 1, obj_class = 0, obj_confidence = Dec False 0 0,
        obj_x = Dec False 5 0, obj_y = Dec False 7 0,
        obj_width = Dec False 1 0, obj_height = Dec False 2 0 \<rparr>]"
proof -
  let ?s = "init_task ref_builtins None :: (dec, string) InferYoloV8"
  have "weights_of (param (clear_data (notify BeginTaskRun ?s))) \<noteq> ''missing.pt''"
    by (simp add: clear_data_def notify_def weights_fresh)
  from stub_load[OF this] obtain s1 m where
    l: "load_model stub_detector (clear_data (notify BeginTaskRun ?s)) = Inr s1"
    and m: "model s1 = Some m" by blast
  from run_output_mapping[OF l m stub_predict, of "()"] obtain s' where
    r: "run stub_detector () ?s = Inr s'"
    and o: "objects s' = map (\<lambda>(i, t). expected_detection stub_detector i t) (enumerate 0 stub_triples)"
    by blast
  show ?thesis using r o by (simp add: stub_expected stub_objects_def)
qed



text \<open>
  Claim C6: when \<^verbatim>\<open>run\<close> loads the detector (the dirty flag is set or no model is
  loaded), the device is the GPU if the GPU flag is set and the CPU otherwise,
  half precision is on exactly when the GPU flag is set, and the weights given to
  \<^verbatim>\<open>YOLO\<close> are the weight file when its path is not empty, else the model name followed
  by \<^verbatim>\<open>.pt\<close>; when \<^verbatim>\<open>run\<close> returns, the model is the one built from these weights and
  the prediction was asked with this device and this precision.
\<close>

theorem run_load_selection:
  assumes "update (param self) \<or> model self = None"
  shows "device (final (run D img self)) = (if cuda (param self) then Cuda else Cpu) \<and>
     half (final (run D img self)) = cuda (param self) \<and>
     (\<exists>rest. calls_since self (final (run D img self)) =
        BeginTaskRun # ClearData #
        Load (if model_weight_file (param self) \<noteq> [] then model_weight_file (param self)
              else model_name (param self) @ ''.pt'') # rest \<and> loads rest = 0) \<and>
     (\<forall>s'. run D img self = Inr s' \<longrightarrow>
        (\<exists>m. YOLO D (if model_weight_file (param self) \<noteq> [] then model_weight_file (param self)
                      else model_name (param self) @ ''.pt'') = Inr m \<and> model s' = Some m) \<and>
        Predict (input_size (param self)) (conf_thres (param self)) (iou_thres (param self))
          (cuda (param self)) (if cuda (param self) then Cuda else Cpu)
          \<in> set (calls_since self s'))"
proof -
  have a: "device (final (run D img self)) = (if cuda (param self) then Cuda else Cpu) \<and>
     half (final (run D img self)) = cuda (param self)"
    using run_shape[of D img self] assms by auto
  have b: "\<exists>rest. calls_since self (final (run D img self)) =
        BeginTaskRun # ClearData #
        Load (if model_weight_file (param self) \<noteq> [] then model_weight_file (param self)
              else model_name (param self) @ ''.pt'') # rest \<and> loads rest = 0"
    using run_calls_since[of self D img] assms by (auto simp: weights_of_def)
  have c: "(\<exists>m. YOLO D (if model_weight_file (param self) \<noteq> [] then model_weight_file (param self)
                      else model_name (param self) @ ''.pt'') = Inr m \<and> model s' = Some m) \<and>
        Predict (input_size (param self)) (conf_thres (param self)) (iou_thres (param self))
          (cuda (param self)) (if cuda (param self) then Cuda else Cpu)
          \<in> set (calls_since self s')"
    if r: "run D img self = Inr s'" for s'
    using run_Inr[OF r] assms by (auto simp: weights_of_def calls_since_def)
  from a b c show ?thesis by blast
qed

theorem run_load_selection_witness:
  "update (param small_task) = True \<and>
   cuda (param small_task) = True \<and>
   model_weight_file (param small_task) = ''best.pt'' \<and>
   \<not> isl (run stub_detector () small_task) \<and>
   device (projr (run stub_detector () small_task)) = Cuda \<and>
   half (projr (run stub_detector () small_task)) = True \<and>
   model (projr (run stub_detector () small_task)) = Some ''best.pt'' \<and>
   take 3 (calls_since small_task (projr (run stub_detector () small_task))) =
     [BeginTaskRun, ClearData, Load ''best.pt''] \<and>
   Predict 320 (Dec False 5 1) (Dec False 45 2) True Cuda
     \<in> set (calls_since small_task (projr (run stub_detector () small_task)))"
proof -
  have p: "param small_task = small_param"
    by (simp add: small_task_def init_task_def)
  have h: "update (param small_task) \<or> model small_task = None"
    by (simp add: p small_param_def)
  obtain s' where r: "run stub_detector () small_task = Inr s'"
    using run_small_task by (cases "run stub_detector () small_task") auto
  from run_load_selection[OF h, of stub_detector "()"] r
  have "device s' = Cuda \<and> half s' = True \<and> model s' = Some ''best.pt'' \<and>
     take 3 (calls_since small_task s') = [BeginTaskRun, ClearData, Load ''best.pt''] \<and>
     Predict 320 (Dec False 5 1) (Dec False 45 2) True Cuda \<in> set (calls_since small_task s')"
    by (auto simp: p small_param_def final_def stub_detector_def)
  then show ?thesis by (simp add: r p small_param_def)
qed

text \<open>
  Claim C7: every run empties the output first: \<^verbatim>\<open>clear_data\<close> is its second call,
  right after \<^verbatim>\<open>begin_task_run\<close> and before any \<^verbatim>\<open>add_object\<close>, whatever the output held
  changes nothing of the run, and when the run ends (it returns or raises) the output
  holds exactly the detections added by this run.
\<close>

theorem run_clears_output:
  "run D img (self\<lparr>objects := os\<rparr>) = run D img self \<and>
   (\<exists>rest. calls_since self (final (run D img self)) = BeginTaskRun # ClearData # rest \<and>
           objects (final (run D img self)) = added rest)"
proof -
  from run_calls_since[of self D img] obtain rest where
    c: "calls_since self (final (run D img self)) =
       [BeginTaskRun, ClearData] @
       (if update (param self) \<or> model self = None then [Load (weights_of (param self))] else []) @ rest"
    and o: "objects (final (run D img self)) = added rest" by blast
  let ?rest = "(if update (param self) \<or> model self = None then [Load (weights_of (param self))] else []) @ rest"
  have "calls_since self (final (run D img self)) = BeginTaskRun # ClearData # ?rest"
    using c by simp
  moreover have "objects (final (run D img self)) = added ?rest"
    using o by simp
  ultimately show ?thesis using run_ignores_objects[of D img os self] by blast
qed

theorem run_clears_output_witness:
  "objects (final (run stub_detector ()
      ((init_task ref_builtins None)\<lparr>objects := [\<lparr> obj_index = 7, obj_class = 3,
          obj_confidence = Dec False 9 1, obj_x = Dec False 1 0, obj_y = Dec False 1 0,
          obj_width = Dec False 2 0, obj_height = Dec False 2 0 \<rparr>]\<rparr>))) = stub_objects"
proof -
  let ?s = "init_task ref_builtins None :: (dec, string) InferYoloV8"
  from run_stub[of ?s "()"] obtain s' where r: "run stub_detector () ?s = Inr s'"
    and o: "objects s' = stub_objects" by (auto simp: weights_fresh)
  show ?thesis
    using run_clears_output[of stub_detector "()" _ ?s] r o by (simp add: final_def)
qed

end
